theory Spec2Isabelle
  imports Complex_Main
begin

section \<open>Region shapes of the VOT toolkit (vot/region/shapes.py)\<close>

text \<open>
  The module defines four region classes (\<open>Special\<close>, \<open>Rectangle\<close>, \<open>Polygon\<close>,
  \<open>Mask\<close>), their constructors, \<open>copy\<close>, \<open>convert\<close> and a few helpers. Each method
  becomes a HOL function; a raised exception becomes the \<open>Inl\<close> branch of a sum.

  Coordinates are Python numbers. They are taken as exact reals: \<open>+\<close>, \<open>-\<close>, \<open>*\<close> and
  comparisons are exact on Python integers, and the rounding of floating-point arithmetic
  is not part of the model. Pixel offsets and array entries are integers.
\<close>

subsection \<open>Exceptions and the region type enumeration\<close>

datatype error = ConversionException | AssertionError | ValueError

datatype RegionType = SPECIAL | RECTANGLE | POLYGON | MASK

text \<open>
  \<open>raising r f\<close> continues with \<open>f\<close> on the value of \<open>r\<close>, and stops with the
  exception when \<open>r\<close> raised one.
\<close>

definition raising :: "error + 'a \<Rightarrow> ('a \<Rightarrow> error + 'b) \<Rightarrow> error + 'b" where
  "raising r f = (case r of Inl e \<Rightarrow> Inl e | Inr v \<Rightarrow> f v)"

subsection \<open>Numbers\<close>

text \<open>
  Python's \<open>round\<close> and \<open>numpy.round\<close> go to the nearest integer and break a tie
  towards the even neighbour.
\<close>

definition py_round :: "real \<Rightarrow> int" where
  "py_round v =
     (let f = \<lfloor>v\<rfloor>; d = v - of_int f
      in if d < 1 / 2 then f
         else if 1 / 2 < d then f + 1
         else if even f then f else f + 1)"

text \<open>\<open>sys.float_info.max\<close>, the largest finite double, is the integer \<open>2^1024 - 2^971\<close>.\<close>

definition float_info_max :: real where
  "float_info_max = 2 ^ 1024 - 2 ^ 971"

text \<open>\<open>astype(np.int32)\<close> on an integer value keeps the low 32 bits, read as signed.\<close>

definition astype_int32 :: "int \<Rightarrow> int" where
  "astype_int32 v = (v + 2 ^ 31) mod 2 ^ 32 - 2 ^ 31"

subsection \<open>Two-dimensional arrays\<close>

text \<open>
  A numpy array of two dimensions: its shape and its rows. The shape is kept beside the
  rows because an array of no rows still has a width. Entries are integers; the element
  type \<open>uint8\<close> is the cast \<open>astype_uint8\<close>, which reduces each entry modulo 256.
\<close>

datatype ndarray = NDArray (shape0: nat) (shape1: nat) (cells: "int list list")

definition wf_ndarray :: "ndarray \<Rightarrow> bool" where
  "wf_ndarray a \<longleftrightarrow>
     length (cells a) = shape0 a \<and> list_all (\<lambda>r. length r = shape1 a) (cells a)"

definition is_bit :: "int \<Rightarrow> bool" where
  "is_bit v \<longleftrightarrow> v = 0 \<or> v = 1"

definition binary :: "ndarray \<Rightarrow> bool" where
  "binary a \<longleftrightarrow> list_all (list_all is_bit) (cells a)"

definition map_ndarray :: "(int \<Rightarrow> int) \<Rightarrow> ndarray \<Rightarrow> ndarray" where
  "map_ndarray f a = NDArray (shape0 a) (shape1 a) (map (map f) (cells a))"

definition full :: "int \<Rightarrow> int \<Rightarrow> int \<Rightarrow> error + ndarray" where
  \<comment> \<open>numpy refuses a negative dimension with a ValueError\<close>
  "full h w v =
     (if h < 0 \<or> w < 0 then Inl ValueError
      else Inr (NDArray (nat h) (nat w) (replicate (nat h) (replicate (nat w) v))))"

definition np_zeros :: "int \<Rightarrow> int \<Rightarrow> error + ndarray" where
  "np_zeros h w = full h w 0"

definition np_ones :: "int \<Rightarrow> int \<Rightarrow> error + ndarray" where
  "np_ones h w = full h w 1"

definition astype_uint8 :: "ndarray \<Rightarrow> ndarray" where
  "astype_uint8 a = map_ndarray (\<lambda>v. v mod 256) a"

text \<open>\<open>a[a > 0] = 1\<close>: every entry above zero is overwritten with 1.\<close>

definition set_positive_to_one :: "ndarray \<Rightarrow> ndarray" where
  "set_positive_to_one a = map_ndarray (\<lambda>v. if 0 < v then 1 else v) a"

text \<open>
  A Python slice bound \<open>i\<close> on a sequence of length \<open>n\<close>: a negative bound counts from
  the end, and the result is clamped to \<open>0..n\<close>. The slice \<open>xs[i:j]\<close> holds the
  positions from the first bound up to the second, and is empty when the second bound
  does not exceed the first.
\<close>

definition slice_bound :: "int \<Rightarrow> nat \<Rightarrow> nat" where
  "slice_bound i n = (if i < 0 then nat (max 0 (i + int n)) else min (nat i) n)"

text \<open>\<open>a[y0:y1, x0:x1]\<close>\<close>

definition getitem_slices :: "ndarray \<Rightarrow> int \<Rightarrow> int \<Rightarrow> int \<Rightarrow> int \<Rightarrow> ndarray" where
  "getitem_slices a y0 y1 x0 x1 =
     (let r0 = slice_bound y0 (shape0 a); r1 = slice_bound y1 (shape0 a);
          c0 = slice_bound x0 (shape1 a); c1 = slice_bound x1 (shape1 a)
      in NDArray (r1 - r0) (c1 - c0)
           (map (\<lambda>r. take (c1 - c0) (drop c0 r)) (take (r1 - r0) (drop r0 (cells a)))))"

text \<open>
  \<open>a[y0:y1, x0:x1] = b\<close>: the value is broadcast to the shape of the target window (an
  axis of length one is repeated); any other mismatch of shapes is a ValueError.
\<close>

definition broadcast_to :: "ndarray \<Rightarrow> nat \<Rightarrow> nat \<Rightarrow> error + ndarray" where
  "broadcast_to b h w =
     (if (shape0 b = h \<or> shape0 b = 1) \<and> (shape1 b = w \<or> shape1 b = 1)
      then Inr (NDArray h w
             (map (\<lambda>i. map (\<lambda>j. cells b ! (if shape0 b = 1 then 0 else i)
                                          ! (if shape1 b = 1 then 0 else j)) [0..<w])
                  [0..<h]))
      else Inl ValueError)"

definition setitem_slices ::
  "ndarray \<Rightarrow> int \<Rightarrow> int \<Rightarrow> int \<Rightarrow> int \<Rightarrow> ndarray \<Rightarrow> error + ndarray" where
  "setitem_slices a y0 y1 x0 x1 b =
     (let r0 = slice_bound y0 (shape0 a); r1 = slice_bound y1 (shape0 a);
          c0 = slice_bound x0 (shape1 a); c1 = slice_bound x1 (shape1 a)
      in raising (broadcast_to b (r1 - r0) (c1 - c0)) (\<lambda>v.
           Inr (NDArray (shape0 a) (shape1 a)
                 (map (\<lambda>i. if r0 \<le> i \<and> i < r1
                            then take c0 (cells a ! i) @ (cells v ! (i - r0))
                                   @ drop (c0 + (c1 - c0)) (cells a ! i)
                            else cells a ! i)
                      [0..<shape0 a]))))"

text \<open>\<open>np.pad(a, ((0, pad_y), (0, pad_x)), 'constant', constant_values=0)\<close>\<close>

definition np_pad :: "ndarray \<Rightarrow> int \<Rightarrow> int \<Rightarrow> error + ndarray" where
  "np_pad a pad_y pad_x =
     (if pad_y < 0 \<or> pad_x < 0 then Inl ValueError
      else Inr (NDArray (shape0 a + nat pad_y) (shape1 a + nat pad_x)
                 (map (\<lambda>r. r @ replicate (nat pad_x) 0) (cells a)
                    @ replicate (nat pad_y) (replicate (shape1 a + nat pad_x) 0))))"

text \<open>\<open>np.min\<close> and \<open>np.max\<close> of a one-dimensional array; an empty array is a ValueError.\<close>

definition np_min :: "int list \<Rightarrow> error + int" where
  "np_min vs = (case vs of [] \<Rightarrow> Inl ValueError | v # rest \<Rightarrow> Inr (fold min rest v))"

definition np_max :: "int list \<Rightarrow> error + int" where
  "np_max vs = (case vs of [] \<Rightarrow> Inl ValueError | v # rest \<Rightarrow> Inr (fold max rest v))"

subsection \<open>The region classes\<close>

text \<open>
  One datatype per class, with the attributes of the class as selectors:
  \<open>Special._code\<close>; \<open>Rectangle.x\<close>, \<open>y\<close>, \<open>width\<close>, \<open>height\<close>; \<open>Polygon.count\<close>,
  \<open>points\<close>; \<open>Mask.mask\<close>, \<open>offset\<close>. The selectors carry the class as a prefix.
  \<open>region\<close> is the union of the four classes, the type of what \<open>convert\<close> returns.
\<close>

type_synonym point = "real \<times> real"

datatype special = Special (special_code: int)

datatype rectangle =
  Rectangle (rect_x: real) (rect_y: real) (rect_width: real) (rect_height: real)

datatype polygon = Polygon (poly_count: nat) (poly_points: "point list")

datatype mask = Mask (mask_array: ndarray) (mask_offset: "int \<times> int")

datatype region = SpecialR special | RectangleR rectangle | PolygonR polygon | MaskR mask

text \<open>
  Two functions of other modules are called and are parameters of the model:
  \<open>vot.region.utils.mask2bbox\<close>, which returns four bounds of an array, and
  \<open>cv2.fillConvexPoly\<close>, which draws into an array. Either may raise.
\<close>

type_synonym bounds = "int \<times> int \<times> int \<times> int"

type_synonym bbox_fun = "ndarray \<Rightarrow> error + bounds"

type_synonym fill_fun = "ndarray \<Rightarrow> (int \<times> int) list \<Rightarrow> int \<Rightarrow> error + ndarray"

subsection \<open>Constructors\<close>

definition Special_init :: "int \<Rightarrow> special" where
  "Special_init c = Special c"

definition Rectangle_init :: "real \<Rightarrow> real \<Rightarrow> real \<Rightarrow> real \<Rightarrow> rectangle" where
  "Rectangle_init x y w h = Rectangle x y w h"

text \<open>
  \<open>Polygon.__init__\<close> asserts that \<open>points\<close> is a list, that it is not empty and that
  every element is a tuple. The first and the third hold by the type of the argument.
\<close>

definition Polygon_init :: "point list \<Rightarrow> error + polygon" where
  "Polygon_init pts =
     (if pts = [] then Inl AssertionError else Inr (Polygon (length pts) pts))"

text \<open>\<open>Mask._optimize\<close>\<close>

definition Mask_optimize :: "bbox_fun \<Rightarrow> mask \<Rightarrow> error + mask" where
  "Mask_optimize mask2bbox self =
     raising (mask2bbox (mask_array self)) (\<lambda>(b0, b1, b2, b3).
       Inr (Mask (getitem_slices (mask_array self) b1 b3 b0 b2) (b0, b1)))"

text \<open>\<open>Mask.__init__\<close>\<close>

definition Mask_init :: "bbox_fun \<Rightarrow> ndarray \<Rightarrow> int \<times> int \<Rightarrow> bool \<Rightarrow> error + mask" where
  "Mask_init mask2bbox a off optimize =
     (let self = Mask (set_positive_to_one (astype_uint8 a)) off
      in if optimize then Mask_optimize mask2bbox self else Inr self)"

subsection \<open>copy, as a value\<close>

text \<open>
  On values a copy is the same value. Which storage a copy shares with its source is the
  subject of the store model further down.
\<close>

definition Special_copy :: "special \<Rightarrow> special" where
  "Special_copy self = Special_init (special_code self)"

definition Rectangle_copy :: "rectangle \<Rightarrow> rectangle" where
  "Rectangle_copy self = self"

definition Polygon_copy :: "polygon \<Rightarrow> polygon" where
  "Polygon_copy self = self"

definition Mask_copy :: "mask \<Rightarrow> mask" where
  "Mask_copy self = self"

subsection \<open>Rectangle\<close>



definition Rectangle_convert :: "bbox_fun \<Rightarrow> rectangle \<Rightarrow> RegionType \<Rightarrow> error + region" where
  "Rectangle_convert mask2bbox self rtype =
     (if rtype = RECTANGLE then Inr (RectangleR (Rectangle_copy self))
      else if rtype = POLYGON then
        map_sum id PolygonR
          (Polygon_init
             [(rect_x self, rect_y self),
              (rect_x self + rect_width self, rect_y self),
              (rect_x self + rect_width self, rect_y self + rect_height self),
              (rect_x self, rect_y self + rect_height self)])
      else if rtype = MASK then
        raising (np_ones (py_round (rect_height self)) (py_round (rect_width self)))
          (\<lambda>a. map_sum id MaskR
                 (Mask_init mask2bbox a
                    (py_round (rect_x self), py_round (rect_y self)) False))
      else Inl ConversionException)"

subsection \<open>Special\<close>

definition Special_convert :: "special \<Rightarrow> RegionType \<Rightarrow> error + region" where
  "Special_convert self rtype =
     (if rtype = SPECIAL then Inr (SpecialR (Special_copy self))
      else Inl ConversionException)"

subsection \<open>Polygon\<close>

text \<open>
  The loop of \<open>Polygon.convert\<close> for the target RECTANGLE, over the remaining points,
  with the accumulator \<open>(top, bottom, left, right)\<close> (\<open>top\<close> and \<open>bottom\<close> bound
  the second coordinate, \<open>left\<close> and \<open>right\<close> the first).
\<close>

fun bounds_loop :: "point list \<Rightarrow> real \<times> real \<times> real \<times> real \<Rightarrow> real \<times> real \<times> real \<times> real" where
  "bounds_loop [] acc = acc"
| "bounds_loop (p # ps) (top_y, bottom_y, left_x, right_x) =
     bounds_loop ps
       (min top_y (snd p), max bottom_y (snd p), min left_x (fst p), max right_x (fst p))"

text \<open>
  The target MASK. The vertex coordinates are rounded and cast to 32-bit integers; the
  sizes \<open>w_\<close> and \<open>h_\<close> and the translated vertices are computed on these integers
  (taken without overflow: the operands are 32-bit values and the top-left corner is
  not negative).
\<close>

definition Polygon_to_mask :: "bbox_fun \<Rightarrow> fill_fun \<Rightarrow> polygon \<Rightarrow> error + mask" where
  "Polygon_to_mask mask2bbox fillConvexPoly self =
     (let xs = map (\<lambda>p. astype_int32 (py_round (fst p))) (poly_points self);
          ys = map (\<lambda>p. astype_int32 (py_round (snd p))) (poly_points self)
      in raising (np_min xs) (\<lambda>min_x.
         raising (np_min ys) (\<lambda>min_y.
           let tl = (max 0 min_x, max 0 min_y)
           in raising (np_max xs) (\<lambda>max_x.
              raising (np_max ys) (\<lambda>max_y.
                let w = max_x - fst tl + 1;
                    h = max_y - snd tl + 1;
                    points_norm = map (\<lambda>(px, py). (px - fst tl, py - snd tl)) (zip xs ys)
                in raising (np_zeros h w) (\<lambda>m.
                   raising
                     (fillConvexPoly m
                        (map (\<lambda>(px, py). (astype_int32 px, astype_int32 py)) points_norm) 1)
                     (\<lambda>m'. Mask_init mask2bbox m' tl False)))))))"

definition Polygon_convert ::
  "bbox_fun \<Rightarrow> fill_fun \<Rightarrow> polygon \<Rightarrow> RegionType \<Rightarrow> error + region" where
  "Polygon_convert mask2bbox fillConvexPoly self rtype =
     (if rtype = POLYGON then Inr (PolygonR (Polygon_copy self))
      else if rtype = RECTANGLE then
        (case bounds_loop (poly_points self)
                (float_info_max, - float_info_max, float_info_max, - float_info_max) of
           (top_y, bottom_y, left_x, right_x) \<Rightarrow>
             Inr (RectangleR
                   (Rectangle_init left_x top_y (right_x - left_x) (bottom_y - top_y))))
      else if rtype = MASK then
        map_sum id MaskR (Polygon_to_mask mask2bbox fillConvexPoly self)
      else Inl ConversionException)"

subsection \<open>Mask\<close>

definition Mask_convert :: "bbox_fun \<Rightarrow> mask \<Rightarrow> RegionType \<Rightarrow> error + region" where
  "Mask_convert mask2bbox self rtype =
     (if rtype = MASK then Inr (MaskR (Mask_copy self))
      else if rtype = RECTANGLE then
        raising (mask2bbox (mask_array self)) (\<lambda>(b0, b1, b2, b3).
          Inr (RectangleR
                (Rectangle_init (of_int (b0 + fst (mask_offset self)))
                   (of_int (b1 + snd (mask_offset self)))
                   (of_int (b2 - b0)) (of_int (b3 - b1)))))
      else if rtype = POLYGON then
        raising (mask2bbox (mask_array self)) (\<lambda>(b0, b1, b2, b3).
          map_sum id PolygonR
            (Polygon_init
               [(of_int b0, of_int b1), (of_int b2, of_int b1),
                (of_int b2, of_int b3), (of_int b0, of_int b3)]))
      else Inl ConversionException)"

text \<open>
  \<open>Mask.get_array\<close>, in three steps: the canvas \<open>mask_\<close> is allocated, the bitmap is
  pasted into it (\<open>get_array_paste\<close>, the block under "mask bounds"), and the canvas is
  cut and padded to \<open>output_sz\<close> when one is given (\<open>get_array_resize\<close>).
\<close>

definition get_array_paste :: "mask \<Rightarrow> ndarray \<Rightarrow> error + ndarray" where
  "get_array_paste self canvas =
     (let tl_x = fst (mask_offset self); tl_y = snd (mask_offset self);
          region_w = int (shape1 (mask_array self));
          region_h = int (shape0 (mask_array self));
          src_x0 = 0; src_y0 = 0;
          src_x1 = int (shape1 (mask_array self));
          src_y1 = int (shape0 (mask_array self));
          dst_x0 = tl_x; dst_y0 = tl_y;
          dst_x1 = tl_x + region_w; dst_y1 = tl_y + region_h
      in if dst_x1 > 0 \<and> dst_y1 > 0 \<and> dst_x0 < int (shape1 canvas)
            \<and> dst_y0 < int (shape0 canvas)
         then
           let (src_x0, dst_x0) = (if dst_x0 < 0 then (- dst_x0, 0) else (src_x0, dst_x0));
               (src_y0, dst_y0) = (if dst_y0 < 0 then (- dst_y0, 0) else (src_y0, dst_y0));
               (src_x1, dst_x1) =
                 (if dst_x1 > int (shape1 canvas)
                  then (src_x1 - (dst_x1 - int (shape1 canvas)), int (shape1 canvas))
                  else (src_x1, dst_x1));
               (src_y1, dst_y1) =
                 (if dst_y1 > int (shape0 canvas)
                  then (src_y1 - (dst_y1 - int (shape0 canvas)), int (shape0 canvas))
                  else (src_y1, dst_y1))
           in setitem_slices canvas dst_y0 dst_y1 dst_x0 dst_x1
                (getitem_slices (mask_array self) src_y0 src_y1 src_x0 src_x1)
         else Inr canvas)"

definition get_array_resize :: "ndarray \<Rightarrow> int \<times> int \<Rightarrow> error + ndarray" where
  "get_array_resize canvas output_sz =
     (let pad_x = fst output_sz - int (shape1 canvas);
          (canvas, pad_x) =
            (if pad_x < 0
             then (getitem_slices canvas 0 (int (shape0 canvas)) 0
                     (int (shape1 canvas) + pad_x), 0)
             else (canvas, pad_x));
          pad_y = snd output_sz - int (shape0 canvas);
          (canvas, pad_y) =
            (if pad_y < 0
             then (getitem_slices canvas 0 (int (shape0 canvas) + pad_y) 0
                     (int (shape1 canvas)), 0)
             else (canvas, pad_y))
      in np_pad canvas pad_y pad_x)"

definition get_array :: "mask \<Rightarrow> (int \<times> int) option \<Rightarrow> error + ndarray" where
  "get_array self output_sz =
     (let tl_x = fst (mask_offset self); tl_y = snd (mask_offset self);
          region_w = int (shape1 (mask_array self));
          region_h = int (shape0 (mask_array self))
      in raising (np_zeros (region_h + tl_y) (region_w + tl_x)) (\<lambda>canvas.
         raising (get_array_paste self canvas) (\<lambda>canvas.
           case output_sz of
             None \<Rightarrow> Inr canvas
           | Some sz \<Rightarrow> get_array_resize canvas sz)))"

subsection \<open>Objects and shared storage\<close>

text \<open>
  \<open>copy\<close> is about object identity, so the objects live in a store: a list of cells,
  the address of a cell being its index. A \<open>Special\<close> or \<open>Rectangle\<close> object holds
  numbers only. A \<open>Polygon\<close> object holds its count and a reference to a Python list of
  points; a \<open>Mask\<close> object holds a reference to a numpy array and its offset (a tuple).
  Lists and arrays are cells of their own and can be changed in place.
\<close>

type_synonym addr = nat

datatype cell =
    SpecialObj special
  | RectangleObj rectangle
  | PolygonObj nat addr
  | MaskObj addr "int \<times> int"
  | PointList "point list"
  | Array ndarray












subsection \<open>A bounding box function\<close>

text \<open>
  Modelled from the spec: \<open>vot.region.utils.mask2bbox\<close> is imported by the module and
  is not among the sources. The spec describes it as the smallest integer rectangle
  \<open>(x0, y0, x1, y1)\<close> that encloses all nonzero entries, in the coordinates of the bitmap,
  and leaves the convention open; half-open bounds are taken here (\<open>x1\<close> and \<open>y1\<close> are one
  past the last nonzero column and row), which is how \<open>Mask._optimize\<close> slices with them,
  and an array without a nonzero entry has the box \<open>(0, 0, 0, 0)\<close>. The functions above
  take the bounding box function as a parameter; this one instantiates it.
\<close>

definition spec_mask2bbox :: bbox_fun where
  "spec_mask2bbox a =
     (let ys = filter (\<lambda>i. list_ex (\<lambda>v. v \<noteq> 0) (cells a ! i)) [0..<shape0 a];
          xs = filter (\<lambda>j. list_ex (\<lambda>r. r ! j \<noteq> 0) (cells a)) [0..<shape1 a]
      in if ys = [] \<or> xs = [] then Inr (0, 0, 0, 0)
         else Inr (int (hd xs), int (hd ys), int (last xs) + 1, int (last ys) + 1))"


section \<open>Properties\<close>

subsection \<open>Rounding\<close>

lemma py_round_nearest: "\<bar>real_of_int (py_round v) - v\<bar> \<le> 1 / 2"
proof -
  have "of_int \<lfloor>v\<rfloor> \<le> v" "v < of_int \<lfloor>v\<rfloor> + 1" by linarith+
  then show ?thesis
    by (auto simp: py_round_def Let_def)
qed

subsection \<open>Mask to polygon\<close>

text \<open>
  C1. The claim: \<open>Mask.convert(POLYGON)\<close> returns the four corners of the bounding box
  of the bitmap in absolute image coordinates, the offset of the mask added to each.
  The code builds the polygon from the bounds alone: whatever \<open>mask2bbox\<close> returns, the
  corners are the bounds in the frame of the bitmap, while the branch for RECTANGLE
  of the same method does add the offset.
\<close>

theorem Mask_convert_POLYGON_without_offset:
  assumes "mask2bbox (mask_array self) = Inr (b0, b1, b2, b3)"
  shows "Mask_convert mask2bbox self POLYGON =
           Inr (PolygonR (Polygon 4 [(of_int b0, of_int b1), (of_int b2, of_int b1),
                                     (of_int b2, of_int b3), (of_int b0, of_int b3)]))
       \<and> Mask_convert mask2bbox self RECTANGLE =
           Inr (RectangleR (Rectangle (of_int (b0 + fst (mask_offset self)))
                              (of_int (b1 + snd (mask_offset self)))
                              (of_int (b2 - b0)) (of_int (b3 - b1))))"
  using assms by (simp add: Mask_convert_def raising_def Polygon_init_def Rectangle_init_def)

theorem Mask_convert_POLYGON_without_offset_witness:
  "spec_mask2bbox (mask_array (Mask (NDArray 1 1 [[1]]) (3, 4))) = Inr (0, 0, 1, 1)
   \<and> Mask_convert spec_mask2bbox (Mask (NDArray 1 1 [[1]]) (3, 4)) POLYGON =
       Inr (PolygonR (Polygon 4 [(0, 0), (1, 0), (1, 1), (0, 1)]))
   \<and> Mask_convert spec_mask2bbox (Mask (NDArray 1 1 [[1]]) (3, 4)) RECTANGLE =
       Inr (RectangleR (Rectangle 3 4 1 1))"
proof -
  have h: "spec_mask2bbox (mask_array (Mask (NDArray 1 1 [[1]]) (3, 4))) = Inr (0, 0, 1, 1)"
    by (simp add: spec_mask2bbox_def)
  show ?thesis
    using h Mask_convert_POLYGON_without_offset
            [of spec_mask2bbox "Mask (NDArray 1 1 [[1]]) (3, 4)" 0 0 1 1]
    by simp
qed

subsection \<open>Conversion errors\<close>

text \<open>
  C4. The claim: a \<open>Special\<close> region raises a ConversionException for every target but
  SPECIAL and converts to SPECIAL as an equal copy, and \<open>Special\<close> is the only class for
  which a target fails. The first two parts hold. The last does not: each of the other
  three classes ends its \<open>convert\<close> with a branch that raises the same exception, and the
  target SPECIAL reaches it.
\<close>

theorem convert_raises_ConversionException:
  "(rtype \<noteq> SPECIAL \<longrightarrow> Special_convert sp rtype = Inl ConversionException)
   \<and> Special_convert sp SPECIAL = Inr (SpecialR sp)
   \<and> Rectangle_convert mask2bbox r SPECIAL = Inl ConversionException
   \<and> Polygon_convert mask2bbox fillConvexPoly p SPECIAL = Inl ConversionException
   \<and> Mask_convert mask2bbox m SPECIAL = Inl ConversionException"
  by (simp add: Special_convert_def Special_copy_def Special_init_def Rectangle_convert_def
      Polygon_convert_def Mask_convert_def)

theorem convert_raises_ConversionException_witness:
  "RECTANGLE \<noteq> SPECIAL
   \<and> Special_convert (Special 0) RECTANGLE = Inl ConversionException
   \<and> Special_convert (Special 0) SPECIAL = Inr (SpecialR (Special 0))"
  using convert_raises_ConversionException [of RECTANGLE "Special 0"] by simp

theorem Rectangle_convert_SPECIAL_counterexample:
  "Rectangle_convert spec_mask2bbox (Rectangle 0 0 1 1) SPECIAL = Inl ConversionException"
  by (simp add: Rectangle_convert_def)

subsection \<open>Rectangle to polygon and back\<close>




subsection \<open>Polygon to mask\<close>

text \<open>
  C6. The claim: for every polygon \<open>convert(MASK)\<close> returns a mask whose bitmap has the
  width \<open>max(x) - origin.x + 1\<close> and the height \<open>max(y) - origin.y + 1\<close>, the origin being
  the top-left corner of the rounded vertices clamped at 0. For a polygon that lies
  left of or above the image the clamped origin is 0 and these sizes are negative: the
  allocation of the bitmap raises a ValueError and no mask is returned, whatever the
  rasterizer and the bounding box function are.
\<close>

theorem Polygon_convert_MASK_negative_raises:
  "Polygon_convert mask2bbox fillConvexPoly
     (Polygon 3 [(- 5, - 5), (- 3, - 5), (- 3, - 2)]) MASK = Inl ValueError"
  by (simp add: Polygon_convert_def Polygon_to_mask_def raising_def np_min_def np_max_def
      py_round_def astype_int32_def np_zeros_def full_def)

subsection \<open>Rectangle to mask\<close>

text \<open>
  C7. The claim: for every rectangle \<open>convert(MASK)\<close> returns an all-ones bitmap of shape
  \<open>(round(height), round(width))\<close> at the offset \<open>(round(x), round(y))\<close>, each value
  rounded to the nearest integer. This holds when the rounded width and height are not
  negative; an array of a negative size cannot be allocated and the conversion raises.
\<close>

theorem Rectangle_convert_MASK_rounds:
  assumes "0 \<le> py_round (rect_width r)" and "0 \<le> py_round (rect_height r)"
  shows "Rectangle_convert mask2bbox r MASK =
           Inr (MaskR (Mask
             (NDArray (nat (py_round (rect_height r))) (nat (py_round (rect_width r)))
                (replicate (nat (py_round (rect_height r)))
                   (replicate (nat (py_round (rect_width r))) 1)))
             (py_round (rect_x r), py_round (rect_y r))))
       \<and> \<bar>of_int (py_round (rect_x r)) - rect_x r\<bar> \<le> 1 / 2
       \<and> \<bar>of_int (py_round (rect_y r)) - rect_y r\<bar> \<le> 1 / 2
       \<and> \<bar>of_int (py_round (rect_width r)) - rect_width r\<bar> \<le> 1 / 2
       \<and> \<bar>of_int (py_round (rect_height r)) - rect_height r\<bar> \<le> 1 / 2"
  using assms py_round_nearest [of "rect_x r"] py_round_nearest [of "rect_y r"]
    py_round_nearest [of "rect_width r"] py_round_nearest [of "rect_height r"]
  by (simp add: Rectangle_convert_def raising_def np_ones_def full_def Mask_init_def
      astype_uint8_def set_positive_to_one_def map_ndarray_def)

theorem Rectangle_convert_MASK_rounds_witness:
  "0 \<le> py_round (rect_width (Rectangle (1 / 2) (3 / 2) (5 / 2) 2))
   \<and> 0 \<le> py_round (rect_height (Rectangle (1 / 2) (3 / 2) (5 / 2) 2))
   \<and> Rectangle_convert spec_mask2bbox (Rectangle (1 / 2) (3 / 2) (5 / 2) 2) MASK =
       Inr (MaskR (Mask (NDArray 2 2 [[1, 1], [1, 1]]) (0, 2)))"
proof -
  have r: "py_round (5 / 2) = 2" "py_round (1 / 2) = 0" "py_round (3 / 2) = 2" "py_round 2 = 2"
    by (simp_all add: py_round_def)
  show ?thesis
    using Rectangle_convert_MASK_rounds [of "Rectangle (1 / 2) (3 / 2) (5 / 2) 2" spec_mask2bbox]
    by (simp add: r numeral_2_eq_2)
qed

theorem Rectangle_convert_MASK_counterexample:
  "Rectangle_convert spec_mask2bbox (Rectangle 0 0 (- 3) 2) MASK = Inl ValueError"
  by (simp add: Rectangle_convert_def raising_def py_round_def np_ones_def full_def)

subsection \<open>The polygon constructor\<close>

text \<open>
  C9. Constructing a polygon from an empty list of points fails on the assertion of the
  constructor, and constructing it from a list that is not empty succeeds, with \<open>count\<close>
  the length of the list and \<open>points\<close> the list.
\<close>

theorem Polygon_init_checks_empty:
  "Polygon_init [] = Inl AssertionError
   \<and> (pts \<noteq> [] \<longrightarrow>
        (\<exists>p. Polygon_init pts = Inr p \<and> poly_count p = length pts \<and> poly_points p = pts))"
  by (simp add: Polygon_init_def)

theorem Polygon_init_checks_empty_witness:
  "[(1, 2), (3, 4)] \<noteq> ([] :: point list)
   \<and> (\<exists>p. Polygon_init [(1, 2), (3, 4)] = Inr p \<and> poly_count p = 2
          \<and> poly_points p = [(1, 2), (3, 4)])"
  using Polygon_init_checks_empty [of "[(1, 2), (3, 4)]"] by (simp add: numeral_2_eq_2)

subsection \<open>Arrays: shapes and binary entries\<close>

lemma slice_bound_le: "slice_bound i n \<le> n"
  by (auto simp: slice_bound_def)

lemma binary_iff: "binary a \<longleftrightarrow> (\<forall>r \<in> set (cells a). \<forall>v \<in> set r. is_bit v)"
  by (simp add: binary_def list_all_iff)

lemma full_props:
  assumes "full h w v = Inr a"
  shows "wf_ndarray a" "shape0 a = nat h" "shape1 a = nat w" "is_bit v \<Longrightarrow> binary a"
  using assms
  by (auto simp: full_def wf_ndarray_def binary_iff list_all_iff split: if_splits)

lemma full_Inr_iff: "(\<exists>a. full h w v = Inr a) \<longleftrightarrow> 0 \<le> h \<and> 0 \<le> w"
  by (auto simp: full_def)

lemma full_Inr: "0 \<le> h \<Longrightarrow> 0 \<le> w \<Longrightarrow> \<exists>a. full h w v = Inr a"
  by (simp add: full_def)

lemma getitem_slices_shape:
  "shape0 (getitem_slices a y0 y1 x0 x1) = slice_bound y1 (shape0 a) - slice_bound y0 (shape0 a)"
  "shape1 (getitem_slices a y0 y1 x0 x1) = slice_bound x1 (shape1 a) - slice_bound x0 (shape1 a)"
  by (simp_all add: getitem_slices_def Let_def)

lemma getitem_slices_wf:
  assumes "wf_ndarray a"
  shows "wf_ndarray (getitem_slices a y0 y1 x0 x1)"
proof -
  have le0: "slice_bound y1 (shape0 a) \<le> length (cells a)"
    using assms slice_bound_le [of y1 "shape0 a"] by (simp add: wf_ndarray_def)
  have rows: "length r = shape1 a"
    if "r \<in> set (take k (drop j (cells a)))" for r k j
    using that assms
    by (auto simp: wf_ndarray_def list_all_iff dest!: in_set_takeD in_set_dropD)
  have le1: "slice_bound x1 (shape1 a) \<le> shape1 a" by (rule slice_bound_le)
  show ?thesis
    using le0 le1 rows
    by (auto simp: wf_ndarray_def getitem_slices_def Let_def list_all_iff)
qed

lemma getitem_slices_binary:
  assumes "binary a"
  shows "binary (getitem_slices a y0 y1 x0 x1)"
  using assms
  by (auto simp: binary_iff getitem_slices_def Let_def
      dest!: in_set_takeD in_set_dropD)

lemma broadcast_to_props:
  assumes "broadcast_to b h w = Inr v"
  shows "wf_ndarray v" "shape0 v = h" "shape1 v = w"
    and "wf_ndarray b \<Longrightarrow> binary b \<Longrightarrow> binary v"
proof -
  from assms have cond: "(shape0 b = h \<or> shape0 b = 1) \<and> (shape1 b = w \<or> shape1 b = 1)"
    and v: "v = NDArray h w
             (map (\<lambda>i. map (\<lambda>j. cells b ! (if shape0 b = 1 then 0 else i)
                                          ! (if shape1 b = 1 then 0 else j)) [0..<w])
                  [0..<h])"
    by (auto simp: broadcast_to_def split: if_splits)
  show "wf_ndarray v" "shape0 v = h" "shape1 v = w"
    by (simp_all add: v wf_ndarray_def list_all_iff)
  assume wf: "wf_ndarray b" and bin: "binary b"
  have cell: "is_bit (cells b ! i ! j)" if "i < shape0 b" "j < shape1 b" for i j
  proof -
    from that wf have i: "i < length (cells b)" by (simp add: wf_ndarray_def)
    then have r: "cells b ! i \<in> set (cells b)" by simp
    with wf that have "j < length (cells b ! i)"
      by (auto simp: wf_ndarray_def list_all_iff)
    then have "cells b ! i ! j \<in> set (cells b ! i)" by simp
    with r bin show ?thesis
      by (auto simp: binary_iff)
  qed
  have "is_bit (cells b ! (if shape0 b = 1 then 0 else i) ! (if shape1 b = 1 then 0 else j))"
    if "i < h" "j < w" for i j
    using cond that by (intro cell) auto
  then show "binary v"
    by (auto simp: v binary_iff)
qed

lemma setitem_slices_props:
  assumes wf: "wf_ndarray a" and set: "setitem_slices a y0 y1 x0 x1 b = Inr c"
  shows "wf_ndarray c" "shape0 c = shape0 a" "shape1 c = shape1 a"
    and "binary a \<Longrightarrow> wf_ndarray b \<Longrightarrow> binary b \<Longrightarrow> binary c"
proof -
  define r0 where "r0 = slice_bound y0 (shape0 a)"
  define r1 where "r1 = slice_bound y1 (shape0 a)"
  define c0 where "c0 = slice_bound x0 (shape1 a)"
  define c1 where "c1 = slice_bound x1 (shape1 a)"
  from set obtain v where v: "broadcast_to b (r1 - r0) (c1 - c0) = Inr v"
    and c: "c = NDArray (shape0 a) (shape1 a)
                 (map (\<lambda>i. if r0 \<le> i \<and> i < r1
                            then take c0 (cells a ! i) @ (cells v ! (i - r0))
                                   @ drop (c0 + (c1 - c0)) (cells a ! i)
                            else cells a ! i)
                      [0..<shape0 a])"
    by (auto simp: setitem_slices_def Let_def raising_def r0_def r1_def c0_def c1_def
        split: sum.splits)
  note vp = broadcast_to_props [OF v]
  have c0le: "c0 \<le> shape1 a" and c1le: "c1 \<le> shape1 a"
    by (simp_all add: c0_def c1_def slice_bound_le)
  have rowlen: "length (cells a ! i) = shape1 a" if "i < shape0 a" for i
    using that wf by (auto simp: wf_ndarray_def list_all_iff)
  have vrow: "length (cells v ! k) = c1 - c0" if "k < r1 - r0" for k
    using that vp(1,2,3) by (auto simp: wf_ndarray_def list_all_iff)
  show "shape0 c = shape0 a" "shape1 c = shape1 a" by (simp_all add: c)
  show "wf_ndarray c"
    using c0le c1le rowlen vrow
    by (auto simp: c wf_ndarray_def list_all_iff)
  assume bina: "binary a" and wfb: "wf_ndarray b" and binb: "binary b"
  have binv: "binary v" by (rule vp(4) [OF wfb binb])
  have arow: "\<forall>x \<in> set (cells a ! i). is_bit x" if "i < shape0 a" for i
  proof -
    from that wf have "cells a ! i \<in> set (cells a)" by (simp add: wf_ndarray_def)
    with bina show ?thesis by (auto simp: binary_iff)
  qed
  have vrowb: "\<forall>x \<in> set (cells v ! k). is_bit x" if "k < r1 - r0" for k
  proof -
    from that vp(1,2) have "cells v ! k \<in> set (cells v)" by (simp add: wf_ndarray_def)
    with binv show ?thesis by (auto simp: binary_iff)
  qed
  have "\<forall>x \<in> set (if r0 \<le> i \<and> i < r1
                     then take c0 (cells a ! i) @ (cells v ! (i - r0))
                            @ drop (c0 + (c1 - c0)) (cells a ! i)
                     else cells a ! i). is_bit x" if "i < shape0 a" for i
  proof (cases "r0 \<le> i \<and> i < r1")
    case True
    then have "i - r0 < r1 - r0" by auto
    from vrowb [OF this] arow [OF that] True show ?thesis
      by (auto dest!: in_set_takeD in_set_dropD)
  next
    case False
    with arow [OF that] show ?thesis by auto
  qed
  then show "binary c"
    by (auto simp: c binary_iff)
qed

lemma is_bit_simps: "is_bit 0" "is_bit 1"
  by (simp_all add: is_bit_def)

lemma np_pad_props:
  assumes wf: "wf_ndarray a" and pad: "np_pad a pad_y pad_x = Inr c"
  shows "wf_ndarray c" "shape0 c = shape0 a + nat pad_y" "shape1 c = shape1 a + nat pad_x"
    and "binary a \<Longrightarrow> binary c"
proof -
  from pad have c: "c = NDArray (shape0 a + nat pad_y) (shape1 a + nat pad_x)
                 (map (\<lambda>r. r @ replicate (nat pad_x) 0) (cells a)
                    @ replicate (nat pad_y) (replicate (shape1 a + nat pad_x) 0))"
    by (simp add: np_pad_def split: if_splits)
  show "wf_ndarray c"
    using wf by (auto simp: c wf_ndarray_def list_all_iff)
  show "shape0 c = shape0 a + nat pad_y" "shape1 c = shape1 a + nat pad_x"
    by (simp_all add: c)
  assume "binary a"
  then show "binary c"
    by (auto simp: c binary_iff is_bit_simps)
qed

lemma np_pad_Inr: "0 \<le> pad_y \<Longrightarrow> 0 \<le> pad_x \<Longrightarrow> \<exists>c. np_pad a pad_y pad_x = Inr c"
  by (simp add: np_pad_def)

lemma setitem_slices_Inr:
  assumes "shape0 b = slice_bound y1 (shape0 a) - slice_bound y0 (shape0 a)"
    and "shape1 b = slice_bound x1 (shape1 a) - slice_bound x0 (shape1 a)"
  shows "\<exists>c. setitem_slices a y0 y1 x0 x1 b = Inr c"
  using assms by (simp add: setitem_slices_def Let_def raising_def broadcast_to_def)

lemma get_array_paste_cases:
  assumes "get_array_paste self canvas = Inr c"
  shows "c = canvas
       \<or> (\<exists>y0 y1 x0 x1 sy0 sy1 sx0 sx1.
            setitem_slices canvas y0 y1 x0 x1
              (getitem_slices (mask_array self) sy0 sy1 sx0 sx1) = Inr c)"
proof (cases "fst (mask_offset self) + int (shape1 (mask_array self)) > 0
            \<and> snd (mask_offset self) + int (shape0 (mask_array self)) > 0
            \<and> fst (mask_offset self) < int (shape1 canvas)
            \<and> snd (mask_offset self) < int (shape0 canvas)")
  case False
  with assms have "c = canvas"
    by (auto simp: get_array_paste_def Let_def)
  then show ?thesis ..
next
  case True
  with assms have "\<exists>y0 y1 x0 x1 sy0 sy1 sx0 sx1.
            setitem_slices canvas y0 y1 x0 x1
              (getitem_slices (mask_array self) sy0 sy1 sx0 sx1) = Inr c"
    unfolding get_array_paste_def Let_def
    by (simp split: prod.splits) blast
  then show ?thesis ..
qed

lemma get_array_paste_props:
  assumes wfc: "wf_ndarray canvas" and wfm: "wf_ndarray (mask_array self)"
    and paste: "get_array_paste self canvas = Inr c"
  shows "wf_ndarray c" "shape0 c = shape0 canvas" "shape1 c = shape1 canvas"
    and "binary canvas \<Longrightarrow> binary (mask_array self) \<Longrightarrow> binary c"
proof -
  from get_array_paste_cases [OF paste]
  consider "c = canvas"
    | y0 y1 x0 x1 sy0 sy1 sx0 sx1 where
      "setitem_slices canvas y0 y1 x0 x1
         (getitem_slices (mask_array self) sy0 sy1 sx0 sx1) = Inr c"
    by blast
  then have "wf_ndarray c \<and> shape0 c = shape0 canvas \<and> shape1 c = shape1 canvas
           \<and> (binary canvas \<longrightarrow> binary (mask_array self) \<longrightarrow> binary c)"
  proof cases
    case 1
    with wfc show ?thesis by simp
  next
    case 2
    note p = setitem_slices_props [OF wfc 2]
    show ?thesis
      using p(1,2,3) p(4) [OF _ getitem_slices_wf [OF wfm] getitem_slices_binary]
      by blast
  qed
  then show "wf_ndarray c" "shape0 c = shape0 canvas" "shape1 c = shape1 canvas"
    and "binary canvas \<Longrightarrow> binary (mask_array self) \<Longrightarrow> binary c"
    by blast+
qed

lemma get_array_paste_Inr:
  assumes h: "shape0 canvas = nat (int (shape0 m) + ty)"
    and w: "shape1 canvas = nat (int (shape1 m) + tx)"
    and h0: "0 \<le> int (shape0 m) + ty" and w0: "0 \<le> int (shape1 m) + tx"
  shows "\<exists>c. get_array_paste (Mask m (tx, ty)) canvas = Inr c"
proof (cases "tx + int (shape1 m) > 0 \<and> ty + int (shape0 m) > 0
            \<and> tx < int (shape1 canvas) \<and> ty < int (shape0 canvas)")
  case False
  then show ?thesis
    by (auto simp: get_array_paste_def Let_def)
next
  case True
  have x1: "\<not> tx + int (shape1 m) > int (shape1 canvas)"
    and y1: "\<not> ty + int (shape0 m) > int (shape0 canvas)"
    using h w h0 w0 by simp_all
  let ?sx0 = "if tx < 0 then - tx else 0" and ?dx0 = "if tx < 0 then 0 else tx"
  let ?sy0 = "if ty < 0 then - ty else 0" and ?dy0 = "if ty < 0 then 0 else ty"
  have eq: "get_array_paste (Mask m (tx, ty)) canvas =
        setitem_slices canvas ?dy0 (ty + int (shape0 m)) ?dx0 (tx + int (shape1 m))
          (getitem_slices m ?sy0 (int (shape0 m)) ?sx0 (int (shape1 m)))"
    using True x1 y1 by (simp add: get_array_paste_def Let_def)
  have rows: "shape0 (getitem_slices m ?sy0 (int (shape0 m)) ?sx0 (int (shape1 m))) =
        slice_bound (ty + int (shape0 m)) (shape0 canvas) - slice_bound ?dy0 (shape0 canvas)"
    using True h h0 by (auto simp: getitem_slices_shape slice_bound_def)
  have cols: "shape1 (getitem_slices m ?sy0 (int (shape0 m)) ?sx0 (int (shape1 m))) =
        slice_bound (tx + int (shape1 m)) (shape1 canvas) - slice_bound ?dx0 (shape1 canvas)"
    using True w w0 by (auto simp: getitem_slices_shape slice_bound_def)
  show ?thesis
    unfolding eq by (rule setitem_slices_Inr [OF rows cols])
qed

lemma get_array_resize_props:
  assumes wf: "wf_ndarray canvas" and ow: "0 \<le> ow" and oh: "0 \<le> oh"
  shows "\<exists>c. get_array_resize canvas (ow, oh) = Inr c \<and> wf_ndarray c
           \<and> shape0 c = nat oh \<and> shape1 c = nat ow \<and> (binary canvas \<longrightarrow> binary c)"
proof -
  define c1 where "c1 =
    (if ow - int (shape1 canvas) < 0
     then getitem_slices canvas 0 (int (shape0 canvas)) 0
            (int (shape1 canvas) + (ow - int (shape1 canvas)))
     else canvas)"
  define px where "px = (if ow - int (shape1 canvas) < 0 then 0 else ow - int (shape1 canvas))"
  define c2 where "c2 =
    (if oh - int (shape0 c1) < 0
     then getitem_slices c1 0 (int (shape0 c1) + (oh - int (shape0 c1))) 0 (int (shape1 c1))
     else c1)"
  define py where "py = (if oh - int (shape0 c1) < 0 then 0 else oh - int (shape0 c1))"
  have eq: "get_array_resize canvas (ow, oh) = np_pad c2 py px"
    by (simp add: get_array_resize_def Let_def c1_def c2_def px_def py_def)
  have wf1: "wf_ndarray c1"
    using wf by (simp add: c1_def getitem_slices_wf)
  have s1: "shape0 c1 = shape0 canvas"
    "int (shape1 c1) + px = ow"
    using ow by (auto simp: c1_def px_def getitem_slices_shape slice_bound_def)
  have b1: "binary canvas \<Longrightarrow> binary c1"
    by (simp add: c1_def getitem_slices_binary)
  have wf2: "wf_ndarray c2"
    using wf1 by (simp add: c2_def getitem_slices_wf)
  have s2: "int (shape0 c2) + py = oh" "shape1 c2 = shape1 c1"
    using oh by (auto simp: c2_def py_def getitem_slices_shape slice_bound_def)
  have b2: "binary c1 \<Longrightarrow> binary c2"
    by (simp add: c2_def getitem_slices_binary)
  have px0: "0 \<le> px" and py0: "0 \<le> py"
    by (simp_all add: px_def py_def)
  from np_pad_Inr [OF py0 px0] obtain c where c: "np_pad c2 py px = Inr c" by blast
  note p = np_pad_props [OF wf2 c]
  have "shape0 c = nat oh" "shape1 c = nat ow"
    using p(2,3) s1 s2 px0 py0 by linarith+
  with p(1) p(4) b1 b2 c eq show ?thesis by auto
qed

subsection \<open>Compositing a mask onto a canvas\<close>

text \<open>
  When the extent of the mask at its offset is not negative on either axis,
  \<open>get_array\<close> returns: without a size, a canvas of the natural extent; with a size
  \<open>(out_w, out_h)\<close>, a bitmap of \<open>out_h\<close> rows and \<open>out_w\<close> columns. A binary mask gives a
  binary result.
\<close>

lemma get_array_natural:
  assumes wf: "wf_ndarray m"
    and h0: "0 \<le> int (shape0 m) + ty" and w0: "0 \<le> int (shape1 m) + tx"
  shows "\<exists>c. get_array (Mask m (tx, ty)) None = Inr c \<and> wf_ndarray c
           \<and> shape0 c = nat (int (shape0 m) + ty) \<and> shape1 c = nat (int (shape1 m) + tx)
           \<and> (binary m \<longrightarrow> binary c)"
proof -
  from h0 w0 obtain z where z: "np_zeros (int (shape0 m) + ty) (int (shape1 m) + tx) = Inr z"
    using full_Inr [OF h0 w0, of 0] by (auto simp: np_zeros_def)
  note zp = full_props [OF z [unfolded np_zeros_def]]
  from get_array_paste_Inr [OF zp(2) zp(3) h0 w0]
  obtain c where c: "get_array_paste (Mask m (tx, ty)) z = Inr c" by blast
  have wfm: "wf_ndarray (mask_array (Mask m (tx, ty)))" using wf by simp
  note cp = get_array_paste_props [OF zp(1) wfm c]
  have "get_array (Mask m (tx, ty)) None = Inr c"
    using z c by (simp add: get_array_def raising_def)
  moreover have "binary m \<longrightarrow> binary c"
    using cp(4) zp(4) by (simp add: is_bit_simps)
  ultimately show ?thesis
    using cp(1,2,3) zp(2,3) by simp
qed

lemma get_array_sized:
  assumes wf: "wf_ndarray m"
    and h0: "0 \<le> int (shape0 m) + ty" and w0: "0 \<le> int (shape1 m) + tx"
    and ow: "0 \<le> out_w" and oh: "0 \<le> out_h"
  shows "\<exists>c. get_array (Mask m (tx, ty)) (Some (out_w, out_h)) = Inr c \<and> wf_ndarray c
           \<and> shape0 c = nat out_h \<and> shape1 c = nat out_w
           \<and> (binary m \<longrightarrow> binary c)"
proof -
  from get_array_natural [OF wf h0 w0]
  obtain c where c: "get_array (Mask m (tx, ty)) None = Inr c" and wfc: "wf_ndarray c"
    and bin: "binary m \<longrightarrow> binary c" by blast
  from get_array_resize_props [OF wfc ow oh]
  obtain d where d: "get_array_resize c (out_w, out_h) = Inr d" and dp: "wf_ndarray d"
    "shape0 d = nat out_h" "shape1 d = nat out_w" "binary c \<longrightarrow> binary d" by blast
  have "get_array (Mask m (tx, ty)) (Some (out_w, out_h)) = Inr d"
    using c d by (auto simp: get_array_def raising_def split: sum.splits)
  with dp bin show ?thesis by blast
qed

lemma get_array_binary:
  assumes wf: "wf_ndarray (mask_array self)" and bin: "binary (mask_array self)"
    and ret: "get_array self output_sz = Inr c"
  shows "binary c"
proof -
  obtain m tx ty where self: "self = Mask m (tx, ty)"
    by (cases self) auto
  from ret have nonneg: "0 \<le> int (shape0 m) + ty" "0 \<le> int (shape1 m) + tx"
    by (auto simp: self get_array_def raising_def np_zeros_def full_def Let_def
        split: if_splits)
  from wf bin have wfm: "wf_ndarray m" and binm: "binary m" by (simp_all add: self)
  from get_array_natural [OF wfm nonneg]
  obtain d where d: "get_array (Mask m (tx, ty)) None = Inr d" and wfd: "wf_ndarray d"
    and bind: "binary d" using binm by blast
  show ?thesis
  proof (cases output_sz)
    case None
    with ret d bind show ?thesis by (simp add: self)
  next
    case (Some sz)
    obtain ow oh where sz: "sz = (ow, oh)" by (cases sz)
    from ret d have r: "get_array_resize d (ow, oh) = Inr c"
      by (auto simp: self Some sz get_array_def raising_def split: sum.splits)
    define c1 where "c1 =
      (if ow - int (shape1 d) < 0
       then getitem_slices d 0 (int (shape0 d)) 0 (int (shape1 d) + (ow - int (shape1 d)))
       else d)"
    define c2 where "c2 =
      (if oh - int (shape0 c1) < 0
       then getitem_slices c1 0 (int (shape0 c1) + (oh - int (shape0 c1))) 0 (int (shape1 c1))
       else c1)"
    define px where "px = (if ow - int (shape1 d) < 0 then 0 else ow - int (shape1 d))"
    define py where "py = (if oh - int (shape0 c1) < 0 then 0 else oh - int (shape0 c1))"
    have wf2: "wf_ndarray c2" and b2: "binary c2"
      using wfd bind by (simp_all add: c1_def c2_def getitem_slices_wf getitem_slices_binary)
    have "get_array_resize d (ow, oh) = np_pad c2 py px"
      by (simp add: get_array_resize_def Let_def c1_def c2_def px_def py_def)
    with r have "np_pad c2 py px = Inr c" by simp
    from np_pad_props(4) [OF wf2 this b2] show ?thesis .
  qed
qed

text \<open>
  C2. The claim: for every mask and every requested size \<open>get_array\<close> returns a
  bitmap of exactly that size with entries in \<open>{0, 1}\<close>, also when the offset is
  negative. The canvas is allocated with the shape
  \<open>(region_h + tl_y, region_w + tl_x)\<close> before the test for a mask that lies outside the
  image: when the offset is below the negated size of the bitmap on an axis, that shape
  is negative and the allocation raises a ValueError, whatever size is requested.
\<close>

theorem get_array_negative_extent_raises:
  assumes "int (shape0 (mask_array self)) + snd (mask_offset self) < 0
         \<or> int (shape1 (mask_array self)) + fst (mask_offset self) < 0"
  shows "get_array self output_sz = Inl ValueError"
  using assms by (auto simp: get_array_def raising_def np_zeros_def full_def Let_def)

theorem get_array_negative_extent_raises_witness:
  "int (shape1 (mask_array (Mask (NDArray 2 2 [[1, 1], [1, 1]]) (- 3, 0))))
     + fst (mask_offset (Mask (NDArray 2 2 [[1, 1], [1, 1]]) (- 3, 0))) < 0
   \<and> get_array (Mask (NDArray 2 2 [[1, 1], [1, 1]]) (- 3, 0)) (Some (5, 5)) = Inl ValueError"
  using get_array_negative_extent_raises
          [of "Mask (NDArray 2 2 [[1, 1], [1, 1]]) (- 3, 0)" "Some (5, 5)"]
  by simp

subsection \<open>The mask constructor\<close>

lemma uint8_bit: "(if 0 < v mod 256 then 1 else v mod 256) = (if v mod 256 = 0 then 0 else (1::int))"
proof -
  have "0 \<le> v mod 256" by simp
  then show ?thesis by auto
qed

lemma uint8_normalize:
  "set_positive_to_one (astype_uint8 a) =
     map_ndarray (\<lambda>v. if v mod 256 = 0 then 0 else 1) a"
  by (simp add: set_positive_to_one_def astype_uint8_def map_ndarray_def comp_def uint8_bit)

lemma Mask_init_plain:
  "Mask_init mask2bbox a off False =
     Inr (Mask (map_ndarray (\<lambda>v. if v mod 256 = 0 then 0 else 1) a) off)"
  by (simp add: Mask_init_def uint8_normalize)

lemma binary_map_bit: "binary (map_ndarray (\<lambda>v. if v mod 256 = 0 then 0 else 1) a)"
  by (auto simp: binary_iff map_ndarray_def is_bit_def)

lemma Mask_optimize_binary:
  assumes "binary (mask_array m)" and "Mask_optimize mask2bbox m = Inr m'"
  shows "binary (mask_array m')"
  using assms
  by (auto simp: Mask_optimize_def raising_def getitem_slices_binary split: sum.splits)

text \<open>
  Whenever the conversion of a polygon to a mask returns, the offset of the mask is not
  negative and its bitmap is binary, whatever the rasterizer drew.
\<close>

lemma Polygon_to_mask_offset:
  assumes "Polygon_to_mask mask2bbox fillConvexPoly self = Inr m"
  shows "0 \<le> fst (mask_offset m) \<and> 0 \<le> snd (mask_offset m) \<and> binary (mask_array m)"
  using assms
  by (auto simp: Polygon_to_mask_def raising_def Let_def Mask_init_plain binary_map_bit
      split: sum.splits)

text \<open>
  C8. The claim: after construction every bitmap value is 0 or 1, any nonzero input
  entry having become 1, and no later operation changes this. The constructor casts
  the array to \<open>uint8\<close> before it compares with zero, so an entry becomes 1 exactly when
  it is not a multiple of 256. The values are 0 or 1 in every case, with and without the
  optimize step; \<open>convert(MASK)\<close> returns the same mask and \<open>get_array\<close> a binary array.
\<close>

theorem Mask_init_binary:
  "(Mask_init mask2bbox a off optimize = Inr m \<longrightarrow> binary (mask_array m))
   \<and> Mask_init mask2bbox a off False =
       Inr (Mask (map_ndarray (\<lambda>v. if v mod 256 = 0 then 0 else 1) a) off)
   \<and> Mask_convert mask2bbox m MASK = Inr (MaskR m)
   \<and> (wf_ndarray (mask_array m) \<and> binary (mask_array m) \<and> get_array m output_sz = Inr c
        \<longrightarrow> binary c)"
proof -
  have "binary (mask_array m)" if "Mask_init mask2bbox a off optimize = Inr m"
  proof (cases optimize)
    case False
    with that show ?thesis
      by (auto simp: Mask_init_plain binary_map_bit)
  next
    case True
    have b: "binary (mask_array (Mask (set_positive_to_one (astype_uint8 a)) off))"
      by (simp add: uint8_normalize binary_map_bit)
    from that True have "Mask_optimize mask2bbox (Mask (set_positive_to_one (astype_uint8 a)) off) = Inr m"
      by (simp add: Mask_init_def)
    from Mask_optimize_binary [OF b this] show ?thesis .
  qed
  then show ?thesis
    using get_array_binary [of m output_sz c]
    by (auto simp: Mask_init_plain Mask_convert_def Mask_copy_def)
qed

theorem Mask_init_binary_witness:
  "Mask_init spec_mask2bbox (NDArray 1 3 [[256, - 1, 7]]) (0, 0) False =
     Inr (Mask (NDArray 1 3 [[0, 1, 1]]) (0, 0))
   \<and> binary (mask_array (Mask (NDArray 1 3 [[0, 1, 1]]) (0, 0)))
   \<and> wf_ndarray (mask_array (Mask (NDArray 1 3 [[0, 1, 1]]) (0, 0)))
   \<and> get_array (Mask (NDArray 1 3 [[0, 1, 1]]) (0, 0)) None = Inr (NDArray 1 3 [[0, 1, 1]])
   \<and> binary (NDArray 1 3 [[0, 1, 1]])"
proof -
  have i: "Mask_init spec_mask2bbox (NDArray 1 3 [[256, - 1, 7]]) (0, 0) False =
     Inr (Mask (NDArray 1 3 [[0, 1, 1]]) (0, 0))"
    by (simp add: Mask_init_def set_positive_to_one_def astype_uint8_def map_ndarray_def)
  have w: "wf_ndarray (mask_array (Mask (NDArray 1 3 [[0, 1, 1]]) (0, 0)))"
    by (simp add: wf_ndarray_def)
  have g: "get_array (Mask (NDArray 1 3 [[0, 1, 1]]) (0, 0)) None = Inr (NDArray 1 3 [[0, 1, 1]])"
    by code_simp
  note t = Mask_init_binary [of spec_mask2bbox "NDArray 1 3 [[256, - 1, 7]]" "(0, 0)" False
        "Mask (NDArray 1 3 [[0, 1, 1]]) (0, 0)" None "NDArray 1 3 [[0, 1, 1]]"]
  from t i have b1: "binary (mask_array (Mask (NDArray 1 3 [[0, 1, 1]]) (0, 0)))"
    by blast
  from t w b1 g have b2: "binary (NDArray 1 3 [[0, 1, 1]])"
    by blast
  from i w g b1 b2 show ?thesis
    by blast
qed

theorem Mask_init_uint8_counterexample:
  "Mask_init spec_mask2bbox (NDArray 1 1 [[256]]) (0, 0) False =
     Inr (Mask (NDArray 1 1 [[0]]) (0, 0))"
  by (simp add: Mask_init_def set_positive_to_one_def astype_uint8_def map_ndarray_def)

subsection \<open>copy and the store\<close>














subsection \<open>Rectangle helpers\<close>



end
